theory Spec2Isabelle
  imports Complex_Main "HOL-Library.Word"
begin

section \<open>The voice-stress analysis of AudioAnalyzer.tsx\<close>

text \<open>
  The component \<^verbatim>\<open>AudioAnalyzer\<close> samples an audio analyser once per animation
  frame (\<^verbatim>\<open>analyzeAudio\<close>), and for a frame that is loud enough derives features of
  the spectrum, five scores and an emotional state (\<^verbatim>\<open>performVoiceStressAnalysis\<close>),
  keeping three histories of at most twenty earlier values in its React state.

  Conventions of the embedding.
  \<^item> A JavaScript \<^verbatim>\<open>number\<close> is a \<^typ>\<open>real\<close>: the arithmetic is exact, without the
    rounding and the overflow of IEEE doubles.
  \<^item> An entry of the \<^verbatim>\<open>Float32Array\<close> that \<^verbatim>\<open>getFloatFrequencyData\<close> fills is a
    decibel value: finite, or \<^verbatim>\<open>-Infinity\<close> for a bin without any energy. The
    search for the peak starts from \<^verbatim>\<open>-Infinity\<close>, so this value is kept in the
    model.
  \<^item> Where the source divides zero by zero the JavaScript value is \<^verbatim>\<open>NaN\<close>. The
    features of an empty spectrum are such values; they are the error
    \<open>NotANumber\<close> of the model, which does not follow a \<^verbatim>\<open>NaN\<close> any further.
  \<^item> An entry of the \<^verbatim>\<open>Uint8Array\<close> is an \<^typ>\<open>8 word\<close>.
  \<^item> The histories are the React state \<^verbatim>\<open>voiceHistory\<close>, \<^verbatim>\<open>pitchHistory\<close> and
    \<^verbatim>\<open>volumeHistory\<close>. Inside one call the three names are constants of the
    closure: a call of \<^verbatim>\<open>setPitchHistory\<close> queues the next state and leaves the
    array that \<^verbatim>\<open>pitchHistory\<close> names as it is. A tick of the model reads the
    histories of the state it is given and returns the next state: the closure of a
    call is taken to be that of the latest render, so that a call reads what the
    calls before it have queued.
  \<^item> The state that is only displayed (\<^verbatim>\<open>audioLevel\<close>, \<^verbatim>\<open>currentAnalysis\<close>) is left
    out; the analysis handed to \<^verbatim>\<open>onVoiceAnalyzed\<close> is the result of the tick.
\<close>

subsection \<open>Data\<close>

datatype decibel = NegInfinity | Finite real

datatype emotionalState = Calm | Stressed | Confident | Uncertain | Deceptive | Anxious

datatype error = NotANumber

subsection \<open>Arithmetic of the source\<close>

text \<open>\<^verbatim>\<open>Math.pow(10, x / 10)\<close>; the power of \<^verbatim>\<open>-Infinity\<close> is 0.\<close>

fun power10 :: "decibel \<Rightarrow> real" where
  "power10 NegInfinity = 0"
| "power10 (Finite x) = 10 powr (x / 10)"

text \<open>\<^verbatim>\<open>a > b\<close> on decibel values.\<close>

fun exceeds :: "decibel \<Rightarrow> decibel \<Rightarrow> bool" where
  "exceeds NegInfinity b = False"
| "exceeds (Finite a) NegInfinity = True"
| "exceeds (Finite a) (Finite b) = (a > b)"

text \<open>\<^verbatim>\<open>xs.slice(-k)\<close>: the last \<open>k\<close> entries, all of them when there are fewer.\<close>

definition sliceLast :: "nat \<Rightarrow> 'a list \<Rightarrow> 'a list" where
  "sliceLast k xs = drop (length xs - k) xs"

text \<open>The update \<^verbatim>\<open>prev => [...prev.slice(-19), value]\<close> of a history.\<close>

definition pushHistory :: "real list \<Rightarrow> real \<Rightarrow> real list" where
  "pushHistory prev v = sliceLast 19 prev @ [v]"

subsection \<open>Features of one frame\<close>

text \<open>
  \<^verbatim>\<open>detectFundamentalFrequency\<close>: the loop runs over the indices from
  \<^verbatim>\<open>startIndex\<close> up to, and without, the smaller of \<^verbatim>\<open>endIndex\<close> and the length.
  For an empty array the result is \<^verbatim>\<open>0 * 22050 / 0\<close>, which is \<^verbatim>\<open>NaN\<close>.
\<close>

definition peakStep :: "decibel list \<Rightarrow> nat \<times> decibel \<Rightarrow> nat \<Rightarrow> nat \<times> decibel" where
  "peakStep frequencyData acc i =
     (case acc of (maxIndex, maxValue) \<Rightarrow>
        if exceeds (frequencyData ! i) maxValue then (i, frequencyData ! i)
        else (maxIndex, maxValue))"

definition startIndex :: "nat \<Rightarrow> nat" where
  "startIndex n = nat \<lfloor>80 * real n / 22050\<rfloor>"

definition endIndex :: "nat \<Rightarrow> nat" where
  "endIndex n = nat \<lfloor>300 * real n / 22050\<rfloor>"

definition detectFundamentalFrequency :: "decibel list \<Rightarrow> error + real" where
  "detectFundamentalFrequency frequencyData =
     (let n = length frequencyData;
          (maxIndex, maxValue) =
             foldl (peakStep frequencyData) (0, NegInfinity)
               [startIndex n ..< min (endIndex n) n]
      in if n = 0 then Inl NotANumber
         else Inr (real maxIndex * 22050 / real n))"

text \<open>
  \<^verbatim>\<open>calculateHighFrequencyEnergy\<close>. For an empty array the quotient is
  \<^verbatim>\<open>0 / 0\<close>, and \<^verbatim>\<open>Math.min(NaN, 1)\<close> is \<^verbatim>\<open>NaN\<close>.
\<close>

definition calculateHighFrequencyEnergy :: "decibel list \<Rightarrow> error + real" where
  "calculateHighFrequencyEnergy frequencyData =
     (let n = length frequencyData;
          highFreqStart = nat \<lfloor>real n * 0.6\<rfloor>;
          energy = foldl (\<lambda>energy i. energy + power10 (frequencyData ! i)) 0
                     [highFreqStart ..< n]
      in if n = 0 then Inl NotANumber
         else Inr (min (energy / real (n - highFreqStart)) 1))"

definition centroidStep :: "decibel list \<Rightarrow> real \<times> real \<Rightarrow> nat \<Rightarrow> real \<times> real" where
  "centroidStep frequencyData acc i =
     (case acc of (weightedSum, magnitudeSum) \<Rightarrow>
        (let magnitude = power10 (frequencyData ! i)
         in (weightedSum + real i * magnitude, magnitudeSum + magnitude)))"

definition calculateSpectralCentroid :: "decibel list \<Rightarrow> real" where
  "calculateSpectralCentroid frequencyData =
     (let (weightedSum, magnitudeSum) =
            foldl (centroidStep frequencyData) (0, 0) [0 ..< length frequencyData]
      in if magnitudeSum > 0 then weightedSum / magnitudeSum else 0)"

subsection \<open>Jitter and shimmer\<close>

text \<open>
  The loop \<^verbatim>\<open>for (let i = 1; i < recent.length; i++)\<close> of both functions, adding
  \<^verbatim>\<open>Math.abs(recent[i] - recent[i-1])\<close>.
\<close>

definition differenceSum :: "real list \<Rightarrow> real" where
  "differenceSum recent =
     foldl (\<lambda>s i. s + \<bar>recent ! i - recent ! (i - 1)\<bar>) 0 [1 ..< length recent]"

definition calculateJitter :: "real list \<Rightarrow> real \<Rightarrow> real" where
  "calculateJitter pitchHistory currentPitch =
     (if length pitchHistory < 3 then 0
      else (let recent = sliceLast 5 pitchHistory @ [currentPitch];
                jitterSum = differenceSum recent
            in min (jitterSum / real (length recent - 1) / 100) 1))"

definition calculateShimmer :: "real list \<Rightarrow> real \<Rightarrow> real" where
  "calculateShimmer volumeHistory currentVolume =
     (if length volumeHistory < 3 then 0
      else (let recent = sliceLast 5 volumeHistory @ [currentVolume];
                shimmerSum = differenceSum recent
            in min (shimmerSum / real (length recent - 1) / 50) 1))"

subsection \<open>Scores\<close>

definition calculateStressLevel :: "real \<Rightarrow> real \<Rightarrow> real \<Rightarrow> real \<Rightarrow> real" where
  "calculateStressLevel highFreqEnergy jitter shimmer spectralCentroid =
     (let stressScore =
            highFreqEnergy * 0.3 + jitter * 0.25 + shimmer * 0.25 +
            (if spectralCentroid > 0.6 then 0.2 else 0)
      in min (max stressScore 0) 1)"

definition calculateConfidenceLevel :: "real \<Rightarrow> real \<Rightarrow> real \<Rightarrow> real" where
  "calculateConfidenceLevel volume jitter shimmer =
     (let volumeScore = (if volume > 20 \<and> volume < 80 then 0.4 else 0.2);
          stabilityScore = (1 - jitter) * 0.3 + (1 - shimmer) * 0.3
      in min (max (volumeScore + stabilityScore) 0) 1)"

text \<open>
  The mean and the variance of \<^verbatim>\<open>calculatePitchVariation\<close> and
  \<^verbatim>\<open>calculateVolumeConsistency\<close>, each a \<^verbatim>\<open>reduce\<close> from 0 divided by the length.
\<close>

definition meanOf :: "real list \<Rightarrow> real" where
  "meanOf xs = foldl (\<lambda>sum val. sum + val) 0 xs / real (length xs)"

definition varianceOf :: "real list \<Rightarrow> real" where
  "varianceOf xs =
     foldl (\<lambda>sum val. sum + (val - meanOf xs) ^ 2) 0 xs / real (length xs)"

definition calculatePitchVariation :: "real list \<Rightarrow> real" where
  "calculatePitchVariation pitchHistory =
     (if length pitchHistory < 5 then 0
      else min (sqrt (varianceOf pitchHistory) / 100) 1)"

definition calculateSpeechRate :: "real list \<Rightarrow> real" where
  "calculateSpeechRate voiceHistory =
     (if length voiceHistory < 10 then 0.5
      else (let speechSegments = length (filter (\<lambda>vol. vol > 10) voiceHistory)
            in min (real speechSegments / real (length voiceHistory)) 1))"

definition calculateVolumeConsistency :: "real list \<Rightarrow> real" where
  "calculateVolumeConsistency volumeHistory =
     (if length volumeHistory < 5 then 1
      else max (1 - sqrt (varianceOf volumeHistory) / 50) 0)"

subsection \<open>The emotional state\<close>

definition determineEmotionalState :: "real \<Rightarrow> real \<Rightarrow> real \<Rightarrow> real \<Rightarrow> emotionalState" where
  "determineEmotionalState stress confidence pitchVar speechRate =
     (if stress > 0.7 then Stressed
      else if confidence > 0.7 \<and> stress < 0.3 then Confident
      else if pitchVar > 0.6 \<and> speechRate < 0.4 then Uncertain
      else if stress > 0.5 \<and> pitchVar > 0.5 then Anxious
      else if stress > 0.4 \<and> confidence < 0.4 \<and> pitchVar > 0.4 then Deceptive
      else Calm)"

subsection \<open>The state, the input and the result of a tick\<close>

record VoiceAnalysis =
  ident :: string
  timestamp :: string
  stressLevel :: real
  confidenceLevel :: real
  pitchVariation :: real
  speechRate :: real
  volumeConsistency :: real
  emotionalState :: emotionalState
  sessionId :: string

text \<open>The three histories of the component's state.\<close>

record histories =
  voiceHistory :: "real list"
  pitchHistory :: "real list"
  volumeHistory :: "real list"

text \<open>
  What one call of \<^verbatim>\<open>analyzeAudio\<close> reads from outside: the two arrays the
  analyser fills, the properties \<^verbatim>\<open>isActive\<close> and \<^verbatim>\<open>sessionId\<close> of the
  component, and the two strings built from the clock and the random number
  generator (the \<^verbatim>\<open>id\<close> and the \<^verbatim>\<open>timestamp\<close> of the analysis).
\<close>

record frame =
  dataArray :: "8 word list"
  frequencyData :: "decibel list"
  isActive :: bool
  session :: string
  freshId :: string
  isoNow :: string

definition initialHistories :: histories where
  "initialHistories = \<lparr>voiceHistory = [], pitchHistory = [], volumeHistory = []\<rparr>"

subsection \<open>One tick\<close>

text \<open>
  \<^verbatim>\<open>performVoiceStressAnalysis\<close>; its parameter \<^verbatim>\<open>timeData\<close> is not used by
  the source. Jitter and shimmer are computed first, then
  the three updates are queued, then the scores are computed from
  \<^verbatim>\<open>pitchHistory\<close>, \<^verbatim>\<open>voiceHistory\<close> and \<^verbatim>\<open>volumeHistory\<close>, which still name the
  arrays of the state the call started with.
\<close>

definition performVoiceStressAnalysis ::
  "histories \<Rightarrow> frame \<Rightarrow> real \<Rightarrow> error + (histories \<times> VoiceAnalysis)" where
  "performVoiceStressAnalysis st fr volume =
     (case detectFundamentalFrequency (frequencyData fr) of
        Inl e \<Rightarrow> Inl e
      | Inr fundamentalFreq \<Rightarrow>
     (case calculateHighFrequencyEnergy (frequencyData fr) of
        Inl e \<Rightarrow> Inl e
      | Inr highFreqEnergy \<Rightarrow>
     (let spectralCentroid = calculateSpectralCentroid (frequencyData fr);
          jitter = calculateJitter (pitchHistory st) fundamentalFreq;
          shimmer = calculateShimmer (volumeHistory st) volume;
          st' = \<lparr>voiceHistory = pushHistory (voiceHistory st) volume,
                 pitchHistory = pushHistory (pitchHistory st) fundamentalFreq,
                 volumeHistory = pushHistory (volumeHistory st) volume\<rparr>;
          stressLevel' = calculateStressLevel highFreqEnergy jitter shimmer spectralCentroid;
          confidenceLevel' = calculateConfidenceLevel volume jitter shimmer;
          pitchVariation' = calculatePitchVariation (pitchHistory st);
          speechRate' = calculateSpeechRate (voiceHistory st);
          volumeConsistency' = calculateVolumeConsistency (volumeHistory st);
          emotionalState' =
            determineEmotionalState stressLevel' confidenceLevel' pitchVariation' speechRate'
      in Inr (st',
           \<lparr>ident = freshId fr,
            timestamp = isoNow fr,
            stressLevel = stressLevel',
            confidenceLevel = confidenceLevel',
            pitchVariation = pitchVariation',
            speechRate = speechRate',
            volumeConsistency = volumeConsistency',
            emotionalState = emotionalState',
            sessionId = session fr\<rparr>))))"

text \<open>
  The level of \<^verbatim>\<open>analyzeAudio\<close>:
  \<^verbatim>\<open>Math.round((average / 255) * 100)\<close> with \<^verbatim>\<open>average\<close> the sum of the bytes
  divided by their number. For no bytes at all the average is \<^verbatim>\<open>0 / 0\<close>, the
  level is \<^verbatim>\<open>NaN\<close> (here \<open>None\<close>) and the test \<^verbatim>\<open>audioLevel > 5\<close> is false.
\<close>

definition audioLevel :: "8 word list \<Rightarrow> int option" where
  "audioLevel bytes =
     (let bufferLength = length bytes;
          average = foldl (\<lambda>sum v. sum + real (unat v)) 0 bytes / real bufferLength
      in if bufferLength = 0 then None
         else Some (round ((average / 255) * 100)))"

text \<open>
  \<^verbatim>\<open>analyzeAudio\<close>: the result is the next state and the analysis handed to
  \<^verbatim>\<open>onVoiceAnalyzed\<close>, if there is one.
\<close>

definition analyzeAudio ::
  "histories \<Rightarrow> frame \<Rightarrow> error + (histories \<times> VoiceAnalysis option)" where
  "analyzeAudio st fr =
     (if \<not> isActive fr then Inr (st, None)
      else (case audioLevel (dataArray fr) of
              None \<Rightarrow> Inr (st, None)
            | Some level \<Rightarrow>
                if level > 5 then
                  (case performVoiceStressAnalysis st fr (real_of_int level) of
                     Inl e \<Rightarrow> Inl e
                   | Inr (st', analysis) \<Rightarrow> Inr (st', Some analysis))
                else Inr (st, None)))"

text \<open>The states the component reaches from the empty histories.\<close>

inductive reachable :: "histories \<Rightarrow> bool" where
  initial: "reachable initialHistories"
| tick: "reachable st \<Longrightarrow> analyzeAudio st fr = Inr (st', out) \<Longrightarrow> reachable st'"

subsection \<open>The specification's formulas\<close>

text \<open>
  The definitions of this subsection follow the words of the specification, not the
  source; the theorems below compare them with the functions above.
\<close>

text \<open>Clamping to the closed interval from 0 to 1.\<close>

definition clamp01 :: "real \<Rightarrow> real" where
  "clamp01 x = (if x < 0 then 0 else if x > 1 then 1 else x)"

text \<open>An ordered decision list: the first rule whose condition holds gives the result.\<close>

fun firstMatch :: "(bool \<times> 'a) list \<Rightarrow> 'a \<Rightarrow> 'a" where
  "firstMatch [] d = d"
| "firstMatch ((c, x) # rules) d = (if c then x else firstMatch rules d)"

definition spec_rules :: "real \<Rightarrow> real \<Rightarrow> real \<Rightarrow> real \<Rightarrow> (bool \<times> emotionalState) list" where
  "spec_rules stress confidence pitchVar rate =
     [(stress > 0.7, Stressed),
      (confidence > 0.7 \<and> stress < 0.3, Confident),
      (pitchVar > 0.6 \<and> rate < 0.4, Uncertain),
      (stress > 0.5 \<and> pitchVar > 0.5, Anxious),
      (stress > 0.4 \<and> confidence < 0.4 \<and> pitchVar > 0.4, Deceptive)]"

text \<open>The sum of the absolute differences of consecutive points.\<close>

fun spec_differences :: "real list \<Rightarrow> real" where
  "spec_differences (x # y # zs) = \<bar>y - x\<bar> + spec_differences (y # zs)"
| "spec_differences zs = 0"

text \<open>
  Jitter (divisor 100) and shimmer (divisor 50): the last five samples of the history
  and then the current value; 0 for fewer than three samples of history.
\<close>

definition spec_instability :: "real \<Rightarrow> real list \<Rightarrow> real \<Rightarrow> real" where
  "spec_instability divisor history current =
     (if length history < 3 then 0
      else (let points = rev (take 5 (rev history)) @ [current];
                count = length points
            in clamp01 (spec_differences points / real (count - 1) / divisor)))"

text \<open>The frequency \<^verbatim>\<open>i * 22050 / binCount\<close> of bin \<open>i\<close> of \<open>n\<close> bins.\<close>

definition binFrequency :: "nat \<Rightarrow> nat \<Rightarrow> real" where
  "binFrequency n i = real i * 22050 / real n"

text \<open>
  Bin \<open>i\<close> is the first bin of largest magnitude among \<open>bins\<close>: no bin of \<open>bins\<close>
  exceeds it, and it exceeds every bin of \<open>bins\<close> with a lower index.
\<close>

definition firstMaximum :: "decibel list \<Rightarrow> nat list \<Rightarrow> nat \<Rightarrow> bool" where
  "firstMaximum fd bins i \<longleftrightarrow>
     i \<in> set bins \<and>
     (\<forall>j \<in> set bins. \<not> exceeds (fd ! j) (fd ! i)) \<and>
     (\<forall>j \<in> set bins. j < i \<longrightarrow> exceeds (fd ! i) (fd ! j))"



subsection \<open>The bins the peak search visits\<close>

definition searchedBins :: "nat \<Rightarrow> nat list" where
  "searchedBins n = [startIndex n ..< min (endIndex n) n]"

text \<open>
  The invariant of the loop of \<^verbatim>\<open>detectFundamentalFrequency\<close> after the bins from
  \<open>a\<close> up to \<open>b\<close>, \<open>b\<close> left out: \<open>acc\<close> is the pair of \<^verbatim>\<open>maxIndex\<close> and
  \<^verbatim>\<open>maxValue\<close>.
\<close>

definition peakInvariant :: "decibel list \<Rightarrow> nat \<Rightarrow> nat \<Rightarrow> nat \<times> decibel \<Rightarrow> bool" where
  "peakInvariant fd a b acc \<longleftrightarrow>
     (if \<exists>i \<in> {a ..< b}. fd ! i \<noteq> NegInfinity
      then a \<le> fst acc \<and> fst acc < b \<and> fd ! fst acc = snd acc \<and> snd acc \<noteq> NegInfinity \<and>
           (\<forall>j \<in> {a ..< b}. \<not> exceeds (fd ! j) (snd acc)) \<and>
           (\<forall>j \<in> {a ..< fst acc}. exceeds (snd acc) (fd ! j))
      else acc = (0, NegInfinity))"


subsection \<open>Example inputs\<close>

text \<open>A frame of one bin at level 50, and the tick it gives on the empty histories.\<close>

definition exampleFrame :: frame where
  "exampleFrame =
     \<lparr>dataArray = [128], frequencyData = [Finite 0], isActive = True,
      session = ''s1'', freshId = ''voice_0_0.5'', isoNow = ''2024-01-01T00:00:00.000Z''\<rparr>"

definition exampleAnalysis :: VoiceAnalysis where
  "exampleAnalysis =
     \<lparr>ident = ''voice_0_0.5'', timestamp = ''2024-01-01T00:00:00.000Z'',
      stressLevel = 0.3, confidenceLevel = 1, pitchVariation = 0, speechRate = 0.5,
      volumeConsistency = 1, emotionalState = Calm, sessionId = ''s1''\<rparr>"

definition exampleHistories :: histories where
  "exampleHistories = \<lparr>voiceHistory = [50], pitchHistory = [0], volumeHistory = [50]\<rparr>"

text \<open>A frame at level 5, the largest level that is not analysed.\<close>

definition quietFrame :: frame where
  "quietFrame =
     \<lparr>dataArray = [13, 13], frequencyData = [Finite (- 30), Finite (- 30)], isActive = True,
      session = ''s1'', freshId = ''voice_1_0.5'', isoNow = ''2024-01-01T00:00:01.000Z''\<rparr>"







section \<open>Properties\<close>

subsection \<open>Loops as sums\<close>

lemma foldl_add_sum_list: "foldl (\<lambda>s v. s + f v) a xs = a + sum_list (map f xs)"
  for a :: real
  by (induction xs arbitrary: a) simp_all

lemma foldl_upt_sum:
  "foldl (\<lambda>s i. s + g i) a [k ..< m] = a + (\<Sum>i = k ..< m. g i)" for a :: real
proof (induction m)
  case 0
  show ?case by simp
next
  case (Suc m)
  show ?case
  proof (cases "k \<le> m")
    case True
    then show ?thesis by (simp add: Suc.IH)
  next
    case False
    then show ?thesis by simp
  qed
qed

lemma meanOf_sum_list: "meanOf xs = sum_list xs / real (length xs)"
  using foldl_add_sum_list [of "\<lambda>v. v" 0 xs] by (simp add: meanOf_def)

lemma varianceOf_sum_list:
  "varianceOf xs = sum_list (map (\<lambda>v. (v - meanOf xs) ^ 2) xs) / real (length xs)"
  using foldl_add_sum_list [of "\<lambda>v. (v - meanOf xs) ^ 2" 0 xs] by (simp add: varianceOf_def)

lemma varianceOf_nonneg: "0 \<le> varianceOf xs"
  unfolding varianceOf_sum_list
  by (intro divide_nonneg_nonneg sum_list_nonneg) auto

lemma foldl_centroidStep:
  "foldl (centroidStep fd) (w, m) [0 ..< k] =
     (w + (\<Sum>i < k. real i * power10 (fd ! i)), m + (\<Sum>i < k. power10 (fd ! i)))"
  by (induction k) (simp_all add: centroidStep_def Let_def)

lemma calculateSpectralCentroid_sum:
  "calculateSpectralCentroid fd =
     (if (\<Sum>i < length fd. power10 (fd ! i)) > 0
      then (\<Sum>i < length fd. real i * power10 (fd ! i)) / (\<Sum>i < length fd. power10 (fd ! i))
      else 0)"
  by (simp add: calculateSpectralCentroid_def foldl_centroidStep)

subsection \<open>Slices and pushes\<close>

lemma sliceLast_length: "length (sliceLast k xs) = min k (length xs)"
  by (simp add: sliceLast_def)

lemma sliceLast_sliceLast: "j \<le> k \<Longrightarrow> sliceLast j (sliceLast k xs) = sliceLast j xs"
  by (auto simp: sliceLast_def intro!: arg_cong [where f = "\<lambda>n. drop n xs"])

lemma sliceLast_snoc: "sliceLast (Suc k) (xs @ [x]) = sliceLast k xs @ [x]"
  by (simp add: sliceLast_def)

lemma sliceLast_rev_take: "sliceLast k xs = rev (take k (rev xs))"
  by (simp add: sliceLast_def take_rev)

lemma foldl_pushHistory: "foldl pushHistory [] vs = sliceLast 20 vs"
proof (induction vs rule: rev_induct)
  case Nil
  show ?case by (simp add: sliceLast_def)
next
  case (snoc v vs)
  have "foldl pushHistory [] (vs @ [v]) = sliceLast 19 (sliceLast 20 vs) @ [v]"
    by (simp add: snoc.IH pushHistory_def)
  also have "\<dots> = sliceLast 19 vs @ [v]"
    by (simp add: sliceLast_sliceLast)
  also have "\<dots> = sliceLast 20 (vs @ [v])"
    using sliceLast_snoc [of 19 vs v] by simp
  finally show ?case .
qed

lemma set_pushHistory: "set (pushHistory h v) \<subseteq> insert v (set h)"
  using set_drop_subset [of "length h - 19" h]
  by (auto simp: pushHistory_def sliceLast_def)

subsection \<open>The shape of a tick\<close>

lemma performVoiceStressAnalysis_Inr:
  assumes "performVoiceStressAnalysis st fr v = Inr (st', a)"
  obtains f h where
    "detectFundamentalFrequency (frequencyData fr) = Inr f"
    "calculateHighFrequencyEnergy (frequencyData fr) = Inr h"
    "st' = \<lparr>voiceHistory = pushHistory (voiceHistory st) v,
            pitchHistory = pushHistory (pitchHistory st) f,
            volumeHistory = pushHistory (volumeHistory st) v\<rparr>"
    "stressLevel a = calculateStressLevel h (calculateJitter (pitchHistory st) f)
        (calculateShimmer (volumeHistory st) v) (calculateSpectralCentroid (frequencyData fr))"
    "confidenceLevel a = calculateConfidenceLevel v (calculateJitter (pitchHistory st) f)
        (calculateShimmer (volumeHistory st) v)"
    "pitchVariation a = calculatePitchVariation (pitchHistory st)"
    "speechRate a = calculateSpeechRate (voiceHistory st)"
    "volumeConsistency a = calculateVolumeConsistency (volumeHistory st)"
    "emotionalState a = determineEmotionalState (stressLevel a) (confidenceLevel a)
        (pitchVariation a) (speechRate a)"
  using assms
  by (auto simp: performVoiceStressAnalysis_def Let_def split: sum.splits)

lemma analyzeAudio_cases:
  assumes "analyzeAudio st fr = Inr (st', out)"
  obtains (skip) "st' = st" "out = None"
  | (analysed) level a where "isActive fr" "audioLevel (dataArray fr) = Some level" "5 < level"
      "performVoiceStressAnalysis st fr (real_of_int level) = Inr (st', a)" "out = Some a"
  using assms
  by (auto simp: analyzeAudio_def split: if_splits option.splits sum.splits)

lemma analyzeAudio_Some:
  assumes "analyzeAudio st fr = Inr (st', Some a)"
  obtains level where "isActive fr" "audioLevel (dataArray fr) = Some level" "5 < level"
    "performVoiceStressAnalysis st fr (real_of_int level) = Inr (st', a)"
  using assms by (cases rule: analyzeAudio_cases) auto

text \<open>
  A tick on a frame with a spectrum of at least one bin never meets a \<^verbatim>\<open>NaN\<close>.
\<close>

lemma analyzeAudio_defined:
  assumes "frequencyData fr \<noteq> []"
  shows "\<exists>r. analyzeAudio st fr = Inr r"
  using assms
  by (simp add: analyzeAudio_def performVoiceStressAnalysis_def detectFundamentalFrequency_def
      calculateHighFrequencyEnergy_def Let_def split: option.splits prod.splits)

text \<open>
  Nor does a tick on a frame as the component builds it, with both arrays of the length
  \<^verbatim>\<open>bufferLength\<close>.
\<close>

lemma analyzeAudio_same_length:
  assumes "length (dataArray fr) = length (frequencyData fr)"
  shows "\<exists>r. analyzeAudio st fr = Inr r"
proof (cases "frequencyData fr = []")
  case True
  with assms have "audioLevel (dataArray fr) = None"
    by (simp add: audioLevel_def)
  then show ?thesis by (simp add: analyzeAudio_def)
next
  case False
  then show ?thesis by (rule analyzeAudio_defined)
qed

subsection \<open>The example tick\<close>

lemma exampleFrame_level: "audioLevel (dataArray exampleFrame) = Some 50"
  by (simp add: exampleFrame_def audioLevel_def round_def)

lemma exampleFrame_fundamental: "detectFundamentalFrequency (frequencyData exampleFrame) = Inr 0"
  by (simp add: exampleFrame_def detectFundamentalFrequency_def startIndex_def endIndex_def)

lemma exampleFrame_energy: "calculateHighFrequencyEnergy (frequencyData exampleFrame) = Inr 1"
  by (simp add: exampleFrame_def calculateHighFrequencyEnergy_def)

lemma exampleFrame_centroid: "calculateSpectralCentroid (frequencyData exampleFrame) = 0"
  by (simp add: exampleFrame_def calculateSpectralCentroid_def centroidStep_def)

lemma exampleFrame_analysis:
  "performVoiceStressAnalysis initialHistories exampleFrame 50 =
     Inr (exampleHistories, exampleAnalysis)"
  by (simp add: performVoiceStressAnalysis_def exampleFrame_fundamental exampleFrame_energy
      exampleFrame_centroid initialHistories_def calculateJitter_def calculateShimmer_def
      pushHistory_def sliceLast_def calculateStressLevel_def calculateConfidenceLevel_def
      calculatePitchVariation_def calculateSpeechRate_def calculateVolumeConsistency_def
      determineEmotionalState_def exampleHistories_def exampleAnalysis_def)
    (simp add: exampleFrame_def)

lemma exampleFrame_tick:
  "analyzeAudio initialHistories exampleFrame = Inr (exampleHistories, Some exampleAnalysis)"
  by (simp add: analyzeAudio_def exampleFrame_level exampleFrame_analysis)
    (simp add: exampleFrame_def)

lemma quietFrame_level: "audioLevel (dataArray quietFrame) = Some 5"
  by (simp add: quietFrame_def audioLevel_def round_def)

subsection \<open>Bounds of the scores\<close>

lemma calculateStressLevel_bounds:
  "0 \<le> calculateStressLevel h j s c \<and> calculateStressLevel h j s c \<le> 1"
  by (simp add: calculateStressLevel_def Let_def)

lemma calculateConfidenceLevel_bounds:
  "0 \<le> calculateConfidenceLevel v j s \<and> calculateConfidenceLevel v j s \<le> 1"
  by (simp add: calculateConfidenceLevel_def Let_def)

lemma calculatePitchVariation_bounds:
  "0 \<le> calculatePitchVariation ph \<and> calculatePitchVariation ph \<le> 1"
  by (simp add: calculatePitchVariation_def varianceOf_nonneg)

lemma calculateSpeechRate_bounds:
  "0 \<le> calculateSpeechRate vh \<and> calculateSpeechRate vh \<le> 1"
  by (simp add: calculateSpeechRate_def Let_def)

lemma calculateVolumeConsistency_bounds:
  "0 \<le> calculateVolumeConsistency vh \<and> calculateVolumeConsistency vh \<le> 1"
  by (simp add: calculateVolumeConsistency_def varianceOf_nonneg)

text \<open>
  Claim C1. Whatever the frame and whatever the histories, the five scores of an
  analysis that a tick emits (stress level, confidence level, pitch variation, speech
  rate and volume consistency) lie between 0 and 1, both included.
\<close>

theorem scores_in_unit_interval:
  assumes "analyzeAudio st fr = Inr (st', Some a)"
  shows "0 \<le> stressLevel a \<and> stressLevel a \<le> 1 \<and>
         0 \<le> confidenceLevel a \<and> confidenceLevel a \<le> 1 \<and>
         0 \<le> pitchVariation a \<and> pitchVariation a \<le> 1 \<and>
         0 \<le> speechRate a \<and> speechRate a \<le> 1 \<and>
         0 \<le> volumeConsistency a \<and> volumeConsistency a \<le> 1"
proof -
  from assms obtain level where
    "performVoiceStressAnalysis st fr (real_of_int level) = Inr (st', a)"
    by (rule analyzeAudio_Some)
  then show ?thesis
    by (elim performVoiceStressAnalysis_Inr)
      (simp only: calculateStressLevel_bounds calculateConfidenceLevel_bounds
        calculatePitchVariation_bounds calculateSpeechRate_bounds
        calculateVolumeConsistency_bounds simp_thms)
qed

theorem scores_in_unit_interval_witness:
  "analyzeAudio initialHistories exampleFrame = Inr (exampleHistories, Some exampleAnalysis) \<and>
   0 \<le> stressLevel exampleAnalysis \<and> stressLevel exampleAnalysis \<le> 1 \<and>
   0 \<le> confidenceLevel exampleAnalysis \<and> confidenceLevel exampleAnalysis \<le> 1 \<and>
   0 \<le> pitchVariation exampleAnalysis \<and> pitchVariation exampleAnalysis \<le> 1 \<and>
   0 \<le> speechRate exampleAnalysis \<and> speechRate exampleAnalysis \<le> 1 \<and>
   0 \<le> volumeConsistency exampleAnalysis \<and> volumeConsistency exampleAnalysis \<le> 1"
  using scores_in_unit_interval [OF exampleFrame_tick] exampleFrame_tick by simp

subsection \<open>The classifier\<close>

text \<open>
  Claim C2. The emotional state is the result of the ordered decision list
  (1) stress > 0.7: stressed, (2) confidence > 0.7 and stress < 0.3: confident,
  (3) pitch variation > 0.6 and speech rate < 0.4: uncertain, (4) stress > 0.5 and
  pitch variation > 0.5: anxious, (5) stress > 0.4 and confidence < 0.4 and pitch
  variation > 0.4: deceptive, otherwise calm; the first rule that matches wins and
  every comparison is strict. So scores with stress > 0.7 and pitch variation > 0.5
  are classified as stressed, not as anxious.
\<close>

theorem classifier_is_ordered_decision_list:
  "determineEmotionalState s c p r = firstMatch (spec_rules s c p r) Calm \<and>
   (s > 0.7 \<and> p > 0.5 \<longrightarrow> determineEmotionalState s c p r = Stressed)"
  by (simp add: determineEmotionalState_def spec_rules_def)

theorem classifier_is_ordered_decision_list_witness:
  "determineEmotionalState 0.8 0.5 0.6 0.5 = Stressed \<and>
   firstMatch (spec_rules 0.8 0.5 0.6 0.5) Calm = Stressed \<and>
   determineEmotionalState 0.7 0.5 0.6 0.5 = Anxious"
  using classifier_is_ordered_decision_list [of "0.8" "0.5" "0.6" "0.5"]
    classifier_is_ordered_decision_list [of "0.7" "0.5" "0.6" "0.5"]
  by (simp add: spec_rules_def)

subsection \<open>The gate on the level\<close>

text \<open>
  Claim C3. A tick whose level, the rounded mean of the bytes rescaled to 0..100, is
  at most 5 emits no analysis and leaves the three histories as they were; the
  outcome is a result of the tick and not an error.
\<close>

theorem quiet_tick_is_skipped:
  "audioLevel (dataArray fr) = Some level \<Longrightarrow> level \<le> 5 \<Longrightarrow>
   analyzeAudio st fr = Inr (st, None)"
  by (simp add: analyzeAudio_def)

theorem quiet_tick_is_skipped_witness:
  "audioLevel (dataArray quietFrame) = Some 5 \<and>
   analyzeAudio exampleHistories quietFrame = Inr (exampleHistories, None) \<and>
   audioLevel [0, 0, 0, 0] = Some 0 \<and>
   analyzeAudio exampleHistories (quietFrame\<lparr>dataArray := [0, 0, 0, 0]\<rparr>) =
     Inr (exampleHistories, None)"
proof -
  have silent: "audioLevel (dataArray (quietFrame\<lparr>dataArray := [0, 0, 0, 0]\<rparr>)) = Some 0"
    by (simp add: audioLevel_def)
  show ?thesis
    using quiet_tick_is_skipped [OF quietFrame_level, of exampleHistories] quietFrame_level
      quiet_tick_is_skipped [OF silent, of exampleHistories] silent
    by simp
qed

subsection \<open>Jitter and shimmer as the specification states them\<close>

lemma spec_differences_nonneg: "0 \<le> spec_differences xs"
  by (induction xs rule: spec_differences.induct) simp_all

lemma sum_differences:
  "(\<Sum>i = Suc 0 ..< length xs. \<bar>xs ! i - xs ! (i - Suc 0)\<bar>) = spec_differences xs"
proof (induction xs rule: spec_differences.induct)
  case (1 x y zs)
  define g where "g i = \<bar>(x # y # zs) ! i - (x # y # zs) ! (i - Suc 0)\<bar>" for i
  define h where "h i = \<bar>(y # zs) ! i - (y # zs) ! (i - Suc 0)\<bar>" for i
  have "(\<Sum>i = Suc 0 ..< Suc (Suc (length zs)). g i)
      = g (Suc 0) + (\<Sum>i = Suc (Suc 0) ..< Suc (Suc (length zs)). g i)"
    by (rule sum.atLeast_Suc_lessThan) simp
  also have "(\<Sum>i = Suc (Suc 0) ..< Suc (Suc (length zs)). g i)
      = (\<Sum>i = Suc 0 ..< Suc (length zs). g (Suc i))"
    by (rule sum.shift_bounds_Suc_ivl)
  also have "\<dots> = (\<Sum>i = Suc 0 ..< Suc (length zs). h i)"
  proof (rule sum.cong)
    fix i assume "i \<in> {Suc 0 ..< Suc (length zs)}"
    then obtain j where "i = Suc j" by (cases i) auto
    then show "g (Suc i) = h i" by (simp add: g_def h_def)
  qed simp
  finally have "(\<Sum>i = Suc 0 ..< Suc (Suc (length zs)). g i)
      = g (Suc 0) + (\<Sum>i = Suc 0 ..< Suc (length zs). h i)" .
  moreover have "g (Suc 0) = \<bar>y - x\<bar>" by (simp add: g_def)
  moreover have "(\<Sum>i = Suc 0 ..< Suc (length zs). h i) = spec_differences (y # zs)"
    using "1.IH" by (simp add: h_def)
  ultimately show ?case by (simp add: g_def)
qed simp_all

lemma differenceSum_spec: "differenceSum xs = spec_differences xs"
  using foldl_upt_sum [of "\<lambda>i. \<bar>xs ! i - xs ! (i - 1)\<bar>" 0 1 "length xs"]
  by (simp add: differenceSum_def sum_differences)

lemma clamp01_nonneg: "0 \<le> x \<Longrightarrow> clamp01 x = min x 1"
  by (simp add: clamp01_def)

lemma clamp01_min_max: "min (max x 0) 1 = clamp01 x"
  by (simp add: clamp01_def)

text \<open>
  Claim C5. With fewer than three samples of history, jitter (for the pitch history)
  and shimmer (for the volume history) are exactly 0. Otherwise each is the sum of the
  absolute differences of consecutive points, the points being the last five samples
  of the history and then the current value, divided by the number of points less
  one, then by 100 for jitter and by 50 for shimmer, and clamped to [0,1].
\<close>

theorem jitter_shimmer_formula:
  "calculateJitter ph f = spec_instability 100 ph f \<and>
   calculateShimmer vh v = spec_instability 50 vh v"
proof -
  have "min (differenceSum xs / real n / d) 1 = clamp01 (spec_differences xs / real n / d)"
    if "0 < d" for xs n d
    using that by (simp add: differenceSum_spec clamp01_nonneg spec_differences_nonneg)
  then show ?thesis
    by (simp add: calculateJitter_def calculateShimmer_def spec_instability_def Let_def
        sliceLast_rev_take)
qed

theorem jitter_shimmer_formula_witness:
  "calculateJitter [100, 110] 500 = 0 \<and>
   calculateJitter [100, 110, 90, 120, 100, 130, 110] 150 = 28 / 100 \<and>
   calculateShimmer [40, 60, 40] 90 = 6 / 10"
  using jitter_shimmer_formula [of "[100, 110]" 500 "[40, 60, 40]" 90]
    jitter_shimmer_formula [of "[100, 110, 90, 120, 100, 130, 110]" 150 "[]" 0]
  by (simp add: spec_instability_def clamp01_def)

subsection \<open>Defaults for short histories\<close>

text \<open>
  Claim C6. The three defaults for too little data differ and are exact: the pitch
  variation is 0 for a pitch history of fewer than 5 samples, the speech rate is 0.5
  for a voice history of fewer than 10 samples, and the volume consistency is 1 for a
  volume history of fewer than 5 samples. Each is a value the function returns; none
  of the three functions has an error result.
\<close>

theorem insufficient_data_defaults:
  "(length ph < 5 \<longrightarrow> calculatePitchVariation ph = 0) \<and>
   (length vh < 10 \<longrightarrow> calculateSpeechRate vh = 0.5) \<and>
   (length vol < 5 \<longrightarrow> calculateVolumeConsistency vol = 1)"
  by (simp add: calculatePitchVariation_def calculateSpeechRate_def
      calculateVolumeConsistency_def)

theorem insufficient_data_defaults_witness:
  "calculatePitchVariation [100, 200, 300, 400] = 0 \<and>
   calculateSpeechRate [50, 50, 50, 50, 50, 50, 50, 50, 50] = 0.5 \<and>
   calculateVolumeConsistency [10, 90, 10, 90] = 1"
  using insufficient_data_defaults
    [of "[100, 200, 300, 400]" "[50, 50, 50, 50, 50, 50, 50, 50, 50]" "[10, 90, 10, 90]"]
  by simp

subsection \<open>The stress level\<close>

lemma calculateStressLevel_clamp:
  "calculateStressLevel h j s c =
     clamp01 (0.30 * h + 0.25 * j + 0.25 * s + (if c > 0.6 then 0.20 else 0))"
  by (simp add: calculateStressLevel_def clamp01_min_max Let_def mult.commute)

text \<open>
  Claim C8. The stress level is the clamped sum of 0.30 times the high-frequency
  energy, 0.25 times the jitter, 0.25 times the shimmer, and 0.20 when the spectral
  centroid is greater than 0.6. The spectral centroid is the power-weighted mean of
  the bin indices, on the scale of the indices, and it is this number that a tick
  compares with 0.6.
\<close>

theorem stress_formula:
  "calculateStressLevel h j s c =
     clamp01 (0.30 * h + 0.25 * j + 0.25 * s + (if c > 0.6 then 0.20 else 0)) \<and>
   calculateSpectralCentroid fd =
     (if (\<Sum>i < length fd. power10 (fd ! i)) > 0
      then (\<Sum>i < length fd. real i * power10 (fd ! i)) / (\<Sum>i < length fd. power10 (fd ! i))
      else 0) \<and>
   (performVoiceStressAnalysis st fr v = Inr (st', a) \<longrightarrow>
      (\<exists>f e. detectFundamentalFrequency (frequencyData fr) = Inr f \<and>
             calculateHighFrequencyEnergy (frequencyData fr) = Inr e \<and>
             stressLevel a =
               calculateStressLevel e (calculateJitter (pitchHistory st) f)
                 (calculateShimmer (volumeHistory st) v)
                 (calculateSpectralCentroid (frequencyData fr))))"
proof (intro conjI impI)
  show "calculateStressLevel h j s c =
     clamp01 (0.30 * h + 0.25 * j + 0.25 * s + (if c > 0.6 then 0.20 else 0))"
    by (rule calculateStressLevel_clamp)
next
  show "calculateSpectralCentroid fd =
     (if (\<Sum>i < length fd. power10 (fd ! i)) > 0
      then (\<Sum>i < length fd. real i * power10 (fd ! i)) / (\<Sum>i < length fd. power10 (fd ! i))
      else 0)"
    by (rule calculateSpectralCentroid_sum)
next
  assume "performVoiceStressAnalysis st fr v = Inr (st', a)"
  then show "\<exists>f e. detectFundamentalFrequency (frequencyData fr) = Inr f \<and>
             calculateHighFrequencyEnergy (frequencyData fr) = Inr e \<and>
             stressLevel a =
               calculateStressLevel e (calculateJitter (pitchHistory st) f)
                 (calculateShimmer (volumeHistory st) v)
                 (calculateSpectralCentroid (frequencyData fr))"
    by (elim performVoiceStressAnalysis_Inr) blast
qed

theorem stress_formula_witness:
  "calculateStressLevel 1 (1 / 2) (1 / 2) 2 = 3 / 4 \<and>
   calculateStressLevel 1 1 1 2 = 1 \<and>
   calculateSpectralCentroid [NegInfinity, NegInfinity, Finite 0] = 2 \<and>
   performVoiceStressAnalysis initialHistories exampleFrame 50 =
     Inr (exampleHistories, exampleAnalysis) \<and>
   stressLevel exampleAnalysis = calculateStressLevel 1 0 0 0"
  using stress_formula [of 1 "1 / 2" "1 / 2" 2 "[NegInfinity, NegInfinity, Finite 0]"
      initialHistories exampleFrame 50 exampleHistories exampleAnalysis]
    stress_formula [of 1 1 1 2 "[]" initialHistories exampleFrame 50 exampleHistories
      exampleAnalysis]
    exampleFrame_analysis exampleFrame_fundamental exampleFrame_energy exampleFrame_centroid
  by (simp add: clamp01_def lessThan_Suc numeral_3_eq_3 initialHistories_def
      calculateJitter_def calculateShimmer_def)

subsection \<open>The histories\<close>

text \<open>
  Claim C9. Each history is a first-in first-out sequence of capacity 20: a push
  appends the new value and drops the oldest entry when the length would exceed 20,
  and the order stays chronological. After 25 values pushed onto an empty history it
  has length exactly 20 and holds the last 20 pushed values in their order.
\<close>

theorem history_is_fifo_of_twenty:
  "(length h < 20 \<longrightarrow> pushHistory h v = h @ [v]) \<and>
   (length h = 20 \<longrightarrow> pushHistory h v = tl h @ [v]) \<and>
   (length vs = 25 \<longrightarrow>
      length (foldl pushHistory [] vs) = 20 \<and> foldl pushHistory [] vs = drop 5 vs)"
proof (intro conjI impI)
  assume "length h < 20"
  then show "pushHistory h v = h @ [v]"
    by (simp add: pushHistory_def sliceLast_def)
next
  assume "length h = 20"
  then show "pushHistory h v = tl h @ [v]"
    by (simp add: pushHistory_def sliceLast_def drop_Suc)
next
  assume "length vs = 25"
  then show "length (foldl pushHistory [] vs) = 20"
    by (simp add: foldl_pushHistory sliceLast_length)
next
  assume "length vs = 25"
  then show "foldl pushHistory [] vs = drop 5 vs"
    by (simp add: foldl_pushHistory sliceLast_def)
qed

theorem history_is_fifo_of_twenty_witness:
  "pushHistory [1, 2, 3] 4 = [1, 2, 3, 4] \<and>
   pushHistory (map real [1 ..< 21]) 21 = map real [2 ..< 22] \<and>
   foldl pushHistory [] (map real [1 ..< 26]) = map real [6 ..< 26]"
  using history_is_fifo_of_twenty [of "[1, 2, 3]" 4 "map real [1 ..< 26]"]
    history_is_fifo_of_twenty [of "map real [1 ..< 21]" 21 "[]"]
  by (simp add: upt_rec)

lemma sum_bytes_le: "sum_list (map (\<lambda>v. real (unat v)) bytes) \<le> 255 * real (length bytes)"
  for bytes :: "8 word list"
proof (induction bytes)
  case Nil
  show ?case by simp
next
  case (Cons b bytes)
  have "unat b \<le> 255" using unsigned_less [of b, where ?'a = nat] by simp
  then have "real (unat b) \<le> real 255" by (rule of_nat_mono)
  then have "real (unat b) \<le> 255" by simp
  with Cons show ?case by simp
qed

lemma audioLevel_le_100:
  assumes "audioLevel bytes = Some level"
  shows "level \<le> 100"
proof -
  from assms have ne: "bytes \<noteq> []" and
    level: "level = round (sum_list (map (\<lambda>v. real (unat v)) bytes) / real (length bytes) / 255 * 100)"
    using foldl_add_sum_list [of "\<lambda>v. real (unat v)" 0 bytes]
    by (auto simp: audioLevel_def Let_def split: if_splits)
  from ne have pos: "0 < real (length bytes)" by simp
  have "sum_list (map (\<lambda>v. real (unat v)) bytes) / real (length bytes) \<le> 255"
    using sum_bytes_le [of bytes] pos by (simp add: pos_divide_le_eq)
  then have "sum_list (map (\<lambda>v. real (unat v)) bytes) / real (length bytes) / 255 * 100 \<le> 100"
    by simp
  then have "level \<le> round (100 :: real)"
    unfolding level by (rule round_mono)
  then show ?thesis by simp
qed

text \<open>
  Claim C10. In every state the component reaches from the empty histories by any
  sequence of ticks, every value in the volume history and in the voice history is
  greater than 5 and at most 100, since a value is pushed only by a tick whose level
  is above 5. The speech rate of a tick counts the samples above 10 of this voice
  history.
\<close>

theorem stored_levels_above_threshold:
  assumes "reachable st"
  shows "(\<forall>v \<in> set (volumeHistory st). 5 < v \<and> v \<le> 100) \<and>
         (\<forall>v \<in> set (voiceHistory st). 5 < v \<and> v \<le> 100) \<and>
         (\<forall>fr st' a. analyzeAudio st fr = Inr (st', Some a) \<longrightarrow>
            speechRate a = calculateSpeechRate (voiceHistory st))"
proof -
  have "(\<forall>v \<in> set (volumeHistory st). 5 < v \<and> v \<le> 100) \<and>
        (\<forall>v \<in> set (voiceHistory st). 5 < v \<and> v \<le> 100)"
    using assms
  proof (induction rule: reachable.induct)
    case initial
    show ?case by (simp add: initialHistories_def)
  next
    case (tick st fr st' out)
    from tick.hyps(2) show ?case
    proof (cases rule: analyzeAudio_cases)
      case skip
      with tick.IH show ?thesis by simp
    next
      case (analysed level a)
      from analysed(2) have "level \<le> 100" by (rule audioLevel_le_100)
      with analysed(3) have new: "5 < real_of_int level \<and> real_of_int level \<le> 100" by simp
      from analysed(4) obtain f where
        st': "st' = \<lparr>voiceHistory = pushHistory (voiceHistory st) (real_of_int level),
                     pitchHistory = pushHistory (pitchHistory st) f,
                     volumeHistory = pushHistory (volumeHistory st) (real_of_int level)\<rparr>"
        by (elim performVoiceStressAnalysis_Inr)
      show ?thesis
        using tick.IH new set_pushHistory [of "volumeHistory st" "real_of_int level"]
          set_pushHistory [of "voiceHistory st" "real_of_int level"]
        unfolding st' by auto
    qed
  qed
  moreover have "speechRate a = calculateSpeechRate (voiceHistory st)"
    if "analyzeAudio st fr = Inr (st', Some a)" for fr st' a
    using that by (elim analyzeAudio_Some performVoiceStressAnalysis_Inr)
  ultimately show ?thesis by blast
qed

theorem stored_levels_above_threshold_witness:
  "reachable exampleHistories \<and>
   volumeHistory exampleHistories = [50] \<and> voiceHistory exampleHistories = [50] \<and>
   (5 :: real) < 50 \<and> (50 :: real) \<le> 100 \<and>
   analyzeAudio initialHistories exampleFrame = Inr (exampleHistories, Some exampleAnalysis) \<and>
   speechRate exampleAnalysis = calculateSpeechRate (voiceHistory initialHistories)"
proof -
  have r: "reachable exampleHistories"
    using reachable.initial exampleFrame_tick by (rule reachable.tick)
  show ?thesis
    using stored_levels_above_threshold [OF r] r
      stored_levels_above_threshold [OF reachable.initial] exampleFrame_tick
    by (simp add: exampleHistories_def)
qed

subsection \<open>The fundamental frequency\<close>

lemma exceeds_irrefl: "\<not> exceeds a a"
  by (cases a) simp_all

lemma exceeds_asym: "exceeds a b \<Longrightarrow> \<not> exceeds b a"
  by (cases a; cases b) simp_all

lemma exceeds_le_trans: "exceeds b m \<Longrightarrow> \<not> exceeds j m \<Longrightarrow> exceeds b j"
  by (cases b; cases m; cases j) simp_all

lemma exceeds_NegInfinity: "exceeds b NegInfinity \<longleftrightarrow> b \<noteq> NegInfinity"
  by (cases b) simp_all

lemma exceeds_finite: "exceeds b m \<Longrightarrow> b \<noteq> NegInfinity"
  by (cases b) simp_all

lemma peakInvariant_step:
  assumes inv: "peakInvariant fd a b acc" and ab: "a \<le> b"
  shows "peakInvariant fd a (Suc b) (peakStep fd acc b)"
proof (cases "exceeds (fd ! b) (snd acc)")
  case True
  then have new: "peakStep fd acc b = (b, fd ! b)"
    by (cases acc) (simp add: peakStep_def)
  from True have fin: "fd ! b \<noteq> NegInfinity" by (rule exceeds_finite)
  have below: "exceeds (fd ! b) (fd ! j)" if "j \<in> {a ..< b}" for j
  proof (cases "\<exists>i \<in> {a ..< b}. fd ! i \<noteq> NegInfinity")
    case True
    with inv that have "\<not> exceeds (fd ! j) (snd acc)" by (auto simp: peakInvariant_def)
    with \<open>exceeds (fd ! b) (snd acc)\<close> show ?thesis by (rule exceeds_le_trans)
  next
    case False
    with that have "fd ! j = NegInfinity" by blast
    with fin show ?thesis by (simp add: exceeds_NegInfinity)
  qed
  have "\<not> exceeds (fd ! j) (fd ! b)" if "j \<in> {a ..< Suc b}" for j
  proof (cases "j = b")
    case True
    then show ?thesis by (simp add: exceeds_irrefl)
  next
    case False
    with that have "j \<in> {a ..< b}" by simp
    then have "exceeds (fd ! b) (fd ! j)" by (rule below)
    then show ?thesis by (rule exceeds_asym)
  qed
  moreover have "\<exists>i \<in> {a ..< Suc b}. fd ! i \<noteq> NegInfinity"
    using fin ab by (intro bexI [of _ b]) simp_all
  ultimately show ?thesis
    using ab fin below by (simp add: peakInvariant_def new)
next
  case False
  then have same: "peakStep fd acc b = acc"
    by (cases acc) (simp add: peakStep_def)
  show ?thesis
  proof (cases "\<exists>i \<in> {a ..< b}. fd ! i \<noteq> NegInfinity")
    case True
    then have ex: "\<exists>i \<in> {a ..< Suc b}. fd ! i \<noteq> NegInfinity" by auto
    from True inv have old:
      "a \<le> fst acc" "fst acc < b" "fd ! fst acc = snd acc" "snd acc \<noteq> NegInfinity"
      "\<forall>j \<in> {a ..< b}. \<not> exceeds (fd ! j) (snd acc)"
      "\<forall>j \<in> {a ..< fst acc}. exceeds (snd acc) (fd ! j)"
      by (simp_all add: peakInvariant_def)
    have "\<not> exceeds (fd ! j) (snd acc)" if "j \<in> {a ..< Suc b}" for j
      using that old(5) False by (cases "j = b") auto
    with ex old show ?thesis
      unfolding peakInvariant_def same by (simp del: atLeastLessThan_iff)
  next
    case none: False
    with inv have acc: "acc = (0, NegInfinity)" by (simp add: peakInvariant_def)
    with False have "fd ! b = NegInfinity" by (simp add: exceeds_NegInfinity)
    with none have "\<not> (\<exists>i \<in> {a ..< Suc b}. fd ! i \<noteq> NegInfinity)"
      by (auto simp: less_Suc_eq)
    then show ?thesis
      unfolding peakInvariant_def same using acc by simp
  qed
qed

lemma peakInvariant_foldl:
  "peakInvariant fd a b (foldl (peakStep fd) (0, NegInfinity) [a ..< b])"
proof (induction b)
  case 0
  show ?case by (simp add: peakInvariant_def)
next
  case (Suc b)
  show ?case
  proof (cases "a \<le> b")
    case True
    with Suc show ?thesis by (simp add: peakInvariant_step)
  next
    case False
    then show ?thesis by (simp add: peakInvariant_def)
  qed
qed






lemma searchedBins_1024: "searchedBins 1024 = [3 ..< 13]"
  by (simp add: searchedBins_def startIndex_def endIndex_def)

text \<open>
  What the loop computes for a spectrum of \<open>n\<close> bins, \<open>n\<close> at least 1: the frequency of
  the first bin of largest magnitude among the searched bins, and 0 when there is no
  searched bin or each of them is at \<^verbatim>\<open>-Infinity\<close>.
\<close>

lemma detectFundamentalFrequency_first_peak:
  assumes "fd \<noteq> []"
  shows "\<exists>r. detectFundamentalFrequency fd = Inr r \<and>
           (if \<exists>i \<in> set (searchedBins (length fd)). fd ! i \<noteq> NegInfinity
            then \<exists>i. firstMaximum fd (searchedBins (length fd)) i \<and>
                     r = binFrequency (length fd) i
            else r = 0)"
proof -
  define n where "n = length fd"
  define a where "a = startIndex n"
  define b where "b = min (endIndex n) n"
  define acc where "acc = foldl (peakStep fd) (0, NegInfinity) [a ..< b]"
  have inv: "peakInvariant fd a b acc"
    unfolding acc_def by (rule peakInvariant_foldl)
  from assms have result: "detectFundamentalFrequency fd = Inr (binFrequency n (fst acc))"
    by (simp add: detectFundamentalFrequency_def Let_def n_def a_def b_def acc_def
        binFrequency_def split: prod.splits)
  have bins: "set (searchedBins n) = {a ..< b}"
    by (simp add: searchedBins_def a_def b_def)
  show ?thesis
  proof (cases "\<exists>i \<in> {a ..< b}. fd ! i \<noteq> NegInfinity")
    case True
    with inv have "firstMaximum fd (searchedBins n) (fst acc)"
      unfolding firstMaximum_def bins peakInvariant_def by auto
    with True result show ?thesis
      unfolding n_def [symmetric] bins by auto
  next
    case False
    with inv have "fst acc = 0" by (simp add: peakInvariant_def)
    with False result show ?thesis
      unfolding n_def [symmetric] bins by (simp add: binFrequency_def)
  qed
qed









subsection \<open>The pitch variation and the current pitch\<close>









text \<open>
  The pitch variation of a tick is computed from the pitch history of the state the
  tick started with: the array that \<^verbatim>\<open>pitchHistory\<close> names in the call is not the
  one that \<^verbatim>\<open>setPitchHistory\<close> has queued.
\<close>

lemma pitchVariation_of_tick:
  assumes "analyzeAudio st fr = Inr (st', Some a)"
  shows "pitchVariation a = calculatePitchVariation (pitchHistory st)"
  using assms by (elim analyzeAudio_Some performVoiceStressAnalysis_Inr)


end
